theory Spec2Isabelle
  imports Main
begin

section \<open>JavaScript values\<close>

text \<open>
  The values that flow through \<^verbatim>\<open>src/main.js\<close>: request bodies, response bodies and
  the values handed to \<^verbatim>\<open>core.setOutput\<close>. An object is a map from property names
  to values, so two objects are equal when they have the same properties with the same
  values, whatever the order of insertion. Numbers are restricted to integers: the
  program never computes with a number, it only compares status codes and writes the
  literal \<^verbatim>\<open>1\<close>.
\<close>

datatype js_value =
    JUndefined
  | JNull
  | JBool bool
  | JNum int
  | JStr string
  | JArr "js_value list"
  | JObj "string \<Rightarrow> js_value option"

text \<open>
  What a \<^verbatim>\<open>throw\<close> or a rejected promise carries: an instance of \<^verbatim>\<open>Error\<close> with its
  message (\<^verbatim>\<open>new Error(...)\<close>, a \<^verbatim>\<open>TypeError\<close>, a \<^verbatim>\<open>SyntaxError\<close>), or any other
  value. The catch handler of \<^verbatim>\<open>run\<close> tells the two apart with \<^verbatim>\<open>instanceof Error\<close>.
\<close>

datatype js_exn = JsError string | JsThrown js_value

text \<open>Truthiness, as tested by \<^verbatim>\<open>if (x)\<close>.\<close>

fun truthy :: "js_value \<Rightarrow> bool" where
  "truthy JUndefined = False"
| "truthy JNull = False"
| "truthy (JBool b) = b"
| "truthy (JNum n) = (n \<noteq> 0)"
| "truthy (JStr s) = (s \<noteq> [])"
| "truthy (JArr xs) = True"
| "truthy (JObj m) = True"

text \<open>
  Reading a named property, \<^verbatim>\<open>v.name\<close>, for the two names the program reads from a
  response body (\<^verbatim>\<open>key\<close> and \<^verbatim>\<open>id\<close>): on \<^verbatim>\<open>undefined\<close> and \<^verbatim>\<open>null\<close> it throws a
  \<^verbatim>\<open>TypeError\<close>; on an object it is the property, or \<^verbatim>\<open>undefined\<close> when the object has
  none; on every other value (no such property on a boolean, number, string or array) it
  is \<^verbatim>\<open>undefined\<close>.
\<close>

fun get_prop :: "js_value \<Rightarrow> string \<Rightarrow> js_exn + js_value" where
  "get_prop JUndefined name =
     Inl (JsError (''Cannot read properties of undefined (reading '' @ [CHR 0x27] @ name @ [CHR 0x27] @ '')''))"
| "get_prop JNull name =
     Inl (JsError (''Cannot read properties of null (reading '' @ [CHR 0x27] @ name @ [CHR 0x27] @ '')''))"
| "get_prop (JObj m) name = Inr (case m name of None \<Rightarrow> JUndefined | Some v \<Rightarrow> v)"
| "get_prop v name = Inr JUndefined"

text \<open>
  Decimal rendering of an integer, as a template literal renders a status code and as
  an array index names a property.
\<close>

fun decimal :: "nat \<Rightarrow> string" where
  "decimal n =
     (let d = ''0123456789'' ! (n mod 10)
      in if n div 10 = 0 then [d] else decimal (n div 10) @ [d])"

declare decimal.simps [simp del]

definition string_of_int :: "int \<Rightarrow> string" where
  "string_of_int i = (if i < 0 then CHR ''-'' # decimal (nat (- i)) else decimal (nat i))"

text \<open>
  The own enumerable properties that an object spread \<^verbatim>\<open>{...v}\<close> copies: those of an
  object; the elements of an array and the characters of a string under their indices;
  none for \<^verbatim>\<open>undefined\<close>, \<^verbatim>\<open>null\<close>, a boolean or a number.
\<close>

fun own_props :: "js_value \<Rightarrow> (string \<Rightarrow> js_value option)" where
  "own_props (JObj m) = m"
| "own_props (JArr xs) = map_of (zip (map decimal [0..<length xs]) xs)"
| "own_props (JStr s) = map_of (zip (map decimal [0..<length s]) (map (\<lambda>c. JStr [c]) s))"
| "own_props v = Map.empty"

text \<open>\<^verbatim>\<open>{...a, ...b}\<close> for an object \<open>a\<close>: the properties of \<open>a\<close>, then those of \<open>b\<close> on top.\<close>

definition spread :: "(string \<Rightarrow> js_value option) \<Rightarrow> js_value \<Rightarrow> (string \<Rightarrow> js_value option)" where
  "spread a b = a ++ own_props b"

text \<open>A value of type string-or-undefined inside a template literal.\<close>

fun template :: "string option \<Rightarrow> string" where
  "template None = ''undefined''"
| "template (Some s) = s"

section \<open>The collaborators\<close>

datatype http_method = GET | POST | PUT

record request =
  req_method :: http_method
  req_url :: string
  req_body :: "js_value option"
  req_headers :: "(string \<times> string) list"

text \<open>What the HTTP client resolves to: \<^verbatim>\<open>{statusCode, result}\<close>.\<close>

record http_response =
  statusCode :: int
  result :: js_value

datatype http_reply = Resolved http_response | Rejected js_exn

text \<open>
  Everything outside \<^verbatim>\<open>src/main.js\<close> that a run depends on:
  \<^item> \<open>inputs\<close>: the string \<^verbatim>\<open>core.getInput(name)\<close> returns for each name, empty when the
    input was not supplied;
  \<^item> \<open>json_parse\<close>: \<^verbatim>\<open>JSON.parse\<close>, which returns a value or throws a \<^verbatim>\<open>SyntaxError\<close>
    (\<open>Inl\<close> its message);
  \<^item> \<open>json_stringify\<close>: \<^verbatim>\<open>JSON.stringify\<close>, which returns a string, or \<^verbatim>\<open>undefined\<close>
    (\<open>None\<close>);
  \<^item> \<open>client\<close>: the HTTP client; its reply to a request may depend on the requests made
    before it.
\<close>

record env =
  inputs :: "string \<Rightarrow> string"
  json_parse :: "string \<Rightarrow> string + js_value"
  json_stringify :: "js_value \<Rightarrow> string option"
  client :: "request list \<Rightarrow> request \<Rightarrow> http_reply"

text \<open>
  Modelled from the spec: \<^verbatim>\<open>getInput(name, {required})\<close> of the CI-runner collaborator
  (\<^verbatim>\<open>@actions/core\<close>, not part of the sources): it returns the input's string and fails
  when the input is required and absent. The failure is an \<^verbatim>\<open>Error\<close> thrown inside the
  \<^verbatim>\<open>try\<close> block of \<^verbatim>\<open>run\<close>.
\<close>

definition getInput :: "(string \<Rightarrow> string) \<Rightarrow> string \<Rightarrow> bool \<Rightarrow> js_exn + string" where
  "getInput inp name required =
     (if required \<and> inp name = [] then Inl (JsError (''Input required and not supplied: '' @ name))
      else Inr (inp name))"

text \<open>An HTTP call: the client answers, and the request is appended to the log of calls.\<close>

definition http_call :: "env \<Rightarrow> request \<Rightarrow> request list \<Rightarrow> http_reply \<times> request list" where
  "http_call e req log = (client e log req, log @ [req])"

definition getJson :: "env \<Rightarrow> string \<Rightarrow> (string \<times> string) list \<Rightarrow> request list \<Rightarrow> http_reply \<times> request list" where
  "getJson e u hs log =
     http_call e \<lparr>req_method = GET, req_url = u, req_body = None, req_headers = hs\<rparr> log"

definition postJson :: "env \<Rightarrow> string \<Rightarrow> js_value \<Rightarrow> (string \<times> string) list \<Rightarrow> request list \<Rightarrow> http_reply \<times> request list" where
  "postJson e u b hs log =
     http_call e \<lparr>req_method = POST, req_url = u, req_body = Some b, req_headers = hs\<rparr> log"

definition putJson :: "env \<Rightarrow> string \<Rightarrow> js_value \<Rightarrow> (string \<times> string) list \<Rightarrow> request list \<Rightarrow> http_reply \<times> request list" where
  "putJson e u b hs log =
     http_call e \<lparr>req_method = PUT, req_url = u, req_body = Some b, req_headers = hs\<rparr> log"

section \<open>The seven pipelines\<close>

text \<open>
  The object every pipeline returns. A property the object literal does not have is
  \<open>None\<close>; a property it has may still hold \<^verbatim>\<open>undefined\<close>.
\<close>

record op_result =
  issueKey :: "js_value option"
  issueId :: "js_value option"
  data :: js_value

text \<open>
  Each pipeline takes the log of calls made so far and returns the log after it, with
  either the thrown value or the result. The \<^verbatim>\<open>core.debug\<close> lines are left out: nothing
  reads what they print.
\<close>

definition createIssue :: "env \<Rightarrow> string \<Rightarrow> (string \<times> string) list \<Rightarrow> request list \<Rightarrow> (js_exn + op_result) \<times> request list" where
  "createIssue e baseUrl hs log =
     (case getInput (inputs e) ''project_key'' True of Inl err \<Rightarrow> (Inl err, log) | Inr projectKey \<Rightarrow>
      case getInput (inputs e) ''issue_type'' True of Inl err \<Rightarrow> (Inl err, log) | Inr issueType \<Rightarrow>
      case getInput (inputs e) ''summary'' True of Inl err \<Rightarrow> (Inl err, log) | Inr summary \<Rightarrow>
      case getInput (inputs e) ''description'' False of Inl err \<Rightarrow> (Inl err, log) | Inr description \<Rightarrow>
      case getInput (inputs e) ''fields_json'' False of Inl err \<Rightarrow> (Inl err, log) | Inr fieldsJson \<Rightarrow>
      let fields0 = [''project'' \<mapsto> JObj [''key'' \<mapsto> JStr projectKey],
                     ''issuetype'' \<mapsto> JObj [''name'' \<mapsto> JStr issueType],
                     ''summary'' \<mapsto> JStr summary];
          fields1 = (if description \<noteq> [] then fields0(''description'' \<mapsto> JStr description) else fields0)
      in case (if fieldsJson \<noteq> [] then
                 (case json_parse e fieldsJson of
                    Inl message \<Rightarrow> Inl (JsError (''Invalid fields_json: '' @ message))
                  | Inr additionalFields \<Rightarrow> Inr (spread fields1 additionalFields))
               else Inr fields1) of
           Inl err \<Rightarrow> (Inl err, log)
         | Inr flds \<Rightarrow>
             (case postJson e (baseUrl @ ''/rest/api/3/issue'') (JObj [''fields'' \<mapsto> JObj flds]) hs log of
                (Rejected err, log') \<Rightarrow> (Inl err, log')
              | (Resolved response, log') \<Rightarrow>
                  if statusCode response < 200 \<or> statusCode response \<ge> 300 then
                    (Inl (JsError (''Failed to create issue: '' @ string_of_int (statusCode response)
                            @ '' '' @ template (json_stringify e (result response)))), log')
                  else
                    (case get_prop (result response) ''key'' of Inl err \<Rightarrow> (Inl err, log') | Inr k \<Rightarrow>
                     case get_prop (result response) ''id'' of Inl err \<Rightarrow> (Inl err, log') | Inr i \<Rightarrow>
                       (Inr \<lparr>issueKey = Some k, issueId = Some i, data = result response\<rparr>, log'))))"

definition updateIssue :: "env \<Rightarrow> string \<Rightarrow> (string \<times> string) list \<Rightarrow> request list \<Rightarrow> (js_exn + op_result) \<times> request list" where
  "updateIssue e baseUrl hs log =
     (case getInput (inputs e) ''issue_key'' True of Inl err \<Rightarrow> (Inl err, log) | Inr issue_key \<Rightarrow>
      case getInput (inputs e) ''description'' False of Inl err \<Rightarrow> (Inl err, log) | Inr description \<Rightarrow>
      case getInput (inputs e) ''fields_json'' False of Inl err \<Rightarrow> (Inl err, log) | Inr fieldsJson \<Rightarrow>
      let fields0 = Map.empty;
          fields1 = (if description \<noteq> [] then fields0(''description'' \<mapsto> JStr description) else fields0)
      in case (if fieldsJson \<noteq> [] then
                 (case json_parse e fieldsJson of
                    Inl message \<Rightarrow> Inl (JsError (''Invalid fields_json: '' @ message))
                  | Inr additionalFields \<Rightarrow> Inr (spread fields1 additionalFields))
               else Inr fields1) of
           Inl err \<Rightarrow> (Inl err, log)
         | Inr flds \<Rightarrow>
             let u = baseUrl @ ''/rest/api/3/issue/'' @ issue_key in
             (case putJson e u (JObj [''fields'' \<mapsto> JObj flds]) hs log of
                (Rejected err, log') \<Rightarrow> (Inl err, log')
              | (Resolved response, log') \<Rightarrow>
                  if statusCode response < 200 \<or> statusCode response \<ge> 300 then
                    (Inl (JsError (''Failed to update issue: '' @ string_of_int (statusCode response)
                            @ '' '' @ template (json_stringify e (result response)))), log')
                  else
                    (case getJson e u hs log' of
                       (Rejected err, log'') \<Rightarrow> (Inl err, log'')
                     | (Resolved getResponse, log'') \<Rightarrow>
                         (case get_prop (result getResponse) ''id'' of Inl err \<Rightarrow> (Inl err, log'') | Inr i \<Rightarrow>
                            (Inr \<lparr>issueKey = Some (JStr issue_key), issueId = Some i,
                                  data = result getResponse\<rparr>, log'')))))"

definition transitionIssue :: "env \<Rightarrow> string \<Rightarrow> (string \<times> string) list \<Rightarrow> request list \<Rightarrow> (js_exn + op_result) \<times> request list" where
  "transitionIssue e baseUrl hs log =
     (case getInput (inputs e) ''issue_key'' True of Inl err \<Rightarrow> (Inl err, log) | Inr issue_key \<Rightarrow>
      case getInput (inputs e) ''transition_id'' True of Inl err \<Rightarrow> (Inl err, log) | Inr transitionId \<Rightarrow>
      (case postJson e (baseUrl @ ''/rest/api/3/issue/'' @ issue_key @ ''/transitions'')
              (JObj [''transition'' \<mapsto> JObj [''id'' \<mapsto> JStr transitionId]]) hs log of
         (Rejected err, log') \<Rightarrow> (Inl err, log')
       | (Resolved response, log') \<Rightarrow>
           if statusCode response < 200 \<or> statusCode response \<ge> 300 then
             (Inl (JsError (''Failed to transition issue: '' @ string_of_int (statusCode response)
                     @ '' '' @ template (json_stringify e (result response)))), log')
           else
             (case getJson e (baseUrl @ ''/rest/api/3/issue/'' @ issue_key) hs log' of
                (Rejected err, log'') \<Rightarrow> (Inl err, log'')
              | (Resolved getResponse, log'') \<Rightarrow>
                  (case get_prop (result getResponse) ''id'' of Inl err \<Rightarrow> (Inl err, log'') | Inr i \<Rightarrow>
                     (Inr \<lparr>issueKey = Some (JStr issue_key), issueId = Some i,
                           data = result getResponse\<rparr>, log'')))))"

definition addComment :: "env \<Rightarrow> string \<Rightarrow> (string \<times> string) list \<Rightarrow> request list \<Rightarrow> (js_exn + op_result) \<times> request list" where
  "addComment e baseUrl hs log =
     (case getInput (inputs e) ''issue_key'' True of Inl err \<Rightarrow> (Inl err, log) | Inr issue_key \<Rightarrow>
      case getInput (inputs e) ''comment'' True of Inl err \<Rightarrow> (Inl err, log) | Inr comment \<Rightarrow>
      (case postJson e (baseUrl @ ''/rest/api/3/issue/'' @ issue_key @ ''/comment'')
              (JObj [''body'' \<mapsto> JObj
                 [''type'' \<mapsto> JStr ''doc'',
                  ''version'' \<mapsto> JNum 1,
                  ''content'' \<mapsto> JArr [JObj
                     [''type'' \<mapsto> JStr ''paragraph'',
                      ''content'' \<mapsto> JArr [JObj
                         [''type'' \<mapsto> JStr ''text'',
                          ''text'' \<mapsto> JStr comment]]]]]]) hs log of
         (Rejected err, log') \<Rightarrow> (Inl err, log')
       | (Resolved response, log') \<Rightarrow>
           if statusCode response < 200 \<or> statusCode response \<ge> 300 then
             (Inl (JsError (''Failed to add comment: '' @ string_of_int (statusCode response)
                     @ '' '' @ template (json_stringify e (result response)))), log')
           else
             (Inr \<lparr>issueKey = Some (JStr issue_key), issueId = None, data = result response\<rparr>, log')))"

definition getIssue :: "env \<Rightarrow> string \<Rightarrow> (string \<times> string) list \<Rightarrow> request list \<Rightarrow> (js_exn + op_result) \<times> request list" where
  "getIssue e baseUrl hs log =
     (case getInput (inputs e) ''issue_key'' True of Inl err \<Rightarrow> (Inl err, log) | Inr issue_key \<Rightarrow>
      (case getJson e (baseUrl @ ''/rest/api/3/issue/'' @ issue_key) hs log of
         (Rejected err, log') \<Rightarrow> (Inl err, log')
       | (Resolved response, log') \<Rightarrow>
           if statusCode response < 200 \<or> statusCode response \<ge> 300 then
             (Inl (JsError (''Failed to get issue: '' @ string_of_int (statusCode response)
                     @ '' '' @ template (json_stringify e (result response)))), log')
           else
             (case get_prop (result response) ''id'' of Inl err \<Rightarrow> (Inl err, log') | Inr i \<Rightarrow>
                (Inr \<lparr>issueKey = Some (JStr issue_key), issueId = Some i, data = result response\<rparr>, log'))))"

definition getProject :: "env \<Rightarrow> string \<Rightarrow> (string \<times> string) list \<Rightarrow> request list \<Rightarrow> (js_exn + op_result) \<times> request list" where
  "getProject e baseUrl hs log =
     (case getInput (inputs e) ''project_key'' True of Inl err \<Rightarrow> (Inl err, log) | Inr projectKey \<Rightarrow>
      (case getJson e (baseUrl @ ''/rest/api/3/project/'' @ projectKey) hs log of
         (Rejected err, log') \<Rightarrow> (Inl err, log')
       | (Resolved response, log') \<Rightarrow>
           if statusCode response < 200 \<or> statusCode response \<ge> 300 then
             (Inl (JsError (''Failed to get project: '' @ string_of_int (statusCode response)
                     @ '' '' @ template (json_stringify e (result response)))), log')
           else
             (Inr \<lparr>issueKey = None, issueId = None, data = result response\<rparr>, log')))"

text \<open>
  The body of \<^verbatim>\<open>createVersion\<close>, built by the assignments of the source in their order.
  \<open>archived\<close> and \<open>released\<close> are the results of \<^verbatim>\<open>=== 'true'\<close>, so booleans, and the
  source's test \<^verbatim>\<open>!== undefined\<close> is kept as it is written.
\<close>

definition createVersion :: "env \<Rightarrow> string \<Rightarrow> (string \<times> string) list \<Rightarrow> request list \<Rightarrow> (js_exn + op_result) \<times> request list" where
  "createVersion e baseUrl hs log =
     (case getInput (inputs e) ''project_id'' True of Inl err \<Rightarrow> (Inl err, log) | Inr projectId \<Rightarrow>
      case getInput (inputs e) ''version_name'' True of Inl err \<Rightarrow> (Inl err, log) | Inr versionName \<Rightarrow>
      case getInput (inputs e) ''version_description'' False of Inl err \<Rightarrow> (Inl err, log) | Inr description \<Rightarrow>
      case getInput (inputs e) ''version_archived'' False of Inl err \<Rightarrow> (Inl err, log) | Inr archivedInput \<Rightarrow>
      case getInput (inputs e) ''version_released'' False of Inl err \<Rightarrow> (Inl err, log) | Inr releasedInput \<Rightarrow>
      case getInput (inputs e) ''version_start_date'' False of Inl err \<Rightarrow> (Inl err, log) | Inr startDate \<Rightarrow>
      case getInput (inputs e) ''version_release_date'' False of Inl err \<Rightarrow> (Inl err, log) | Inr releaseDate \<Rightarrow>
      let archived = JBool (archivedInput = ''true'');
          released = JBool (releasedInput = ''true'');
          body0 = [''name'' \<mapsto> JStr versionName, ''projectId'' \<mapsto> JStr projectId];
          body1 = (if description \<noteq> [] then body0(''description'' \<mapsto> JStr description) else body0);
          body2 = (if archived \<noteq> JUndefined then body1(''archived'' \<mapsto> archived) else body1);
          body3 = (if released \<noteq> JUndefined then body2(''released'' \<mapsto> released) else body2);
          body4 = (if startDate \<noteq> [] then body3(''startDate'' \<mapsto> JStr startDate) else body3);
          body5 = (if releaseDate \<noteq> [] then body4(''releaseDate'' \<mapsto> JStr releaseDate) else body4)
      in (case postJson e (baseUrl @ ''/rest/api/3/version'') (JObj body5) hs log of
            (Rejected err, log') \<Rightarrow> (Inl err, log')
          | (Resolved response, log') \<Rightarrow>
              if statusCode response < 200 \<or> statusCode response \<ge> 300 then
                (Inl (JsError (''Failed to create version: '' @ string_of_int (statusCode response)
                        @ '' '' @ template (json_stringify e (result response)))), log')
              else
                (Inr \<lparr>issueKey = None, issueId = None, data = result response\<rparr>, log')))"

section \<open>The run\<close>

text \<open>The \<^verbatim>\<open>switch\<close> of \<^verbatim>\<open>run\<close>.\<close>

definition dispatch :: "env \<Rightarrow> string \<Rightarrow> (string \<times> string) list \<Rightarrow> string \<Rightarrow> request list \<Rightarrow> (js_exn + op_result) \<times> request list" where
  "dispatch e baseUrl hs operation log =
     (if operation = ''create_issue'' then createIssue e baseUrl hs log
      else if operation = ''update_issue'' then updateIssue e baseUrl hs log
      else if operation = ''transition_issue'' then transitionIssue e baseUrl hs log
      else if operation = ''add_comment'' then addComment e baseUrl hs log
      else if operation = ''get_issue'' then getIssue e baseUrl hs log
      else if operation = ''get_project'' then getProject e baseUrl hs log
      else if operation = ''create_version'' then createVersion e baseUrl hs log
      else (Inl (JsError (''Unsupported operation: '' @ operation)), log))"

text \<open>
  What a run leaves behind: the outputs in the order they were set, the message the run
  was failed with (if it was), and the HTTP calls made.
\<close>

record run_state =
  outputs :: "(string \<times> js_value) list"
  failed :: "string option"
  calls :: "request list"

definition setOutput :: "string \<Rightarrow> js_value \<Rightarrow> run_state \<Rightarrow> run_state" where
  "setOutput name v s = s\<lparr>outputs := outputs s @ [(name, v)]\<rparr>"

definition setFailed :: "string \<Rightarrow> run_state \<Rightarrow> run_state" where
  "setFailed message s = s\<lparr>failed := Some message\<rparr>"

text \<open>Reading a property of the pipeline's result: \<^verbatim>\<open>undefined\<close> when it has none.\<close>

fun read_opt :: "js_value option \<Rightarrow> js_value" where
  "read_opt None = JUndefined"
| "read_opt (Some v) = v"

text \<open>\<^verbatim>\<open>JSON.stringify(v)\<close> as a value: a string or \<^verbatim>\<open>undefined\<close>.\<close>

definition stringify_value :: "env \<Rightarrow> js_value \<Rightarrow> js_value" where
  "stringify_value e v = (case json_stringify e v of None \<Rightarrow> JUndefined | Some s \<Rightarrow> JStr s)"

text \<open>\<^verbatim>\<open>jiraBaseUrl.endsWith('/') ? jiraBaseUrl.slice(0, -1) : jiraBaseUrl\<close>\<close>

definition normalize_base_url :: "string \<Rightarrow> string" where
  "normalize_base_url jiraBaseUrl =
     (if jiraBaseUrl \<noteq> [] \<and> last jiraBaseUrl = CHR ''/'' then butlast jiraBaseUrl else jiraBaseUrl)"

definition default_headers :: "(string \<times> string) list" where
  "default_headers = [(''Content-Type'', ''application/json''), (''Accept'', ''application/json'')]"

text \<open>
  The \<^verbatim>\<open>try\<close> block of \<^verbatim>\<open>run\<close>: it ends normally or throws, and leaves a state.
  The e-mail and the token are read (and required) and go into the credential handler
  of the client, which is the \<open>client\<close> of the environment here.
\<close>

definition run_try :: "env \<Rightarrow> (js_exn + unit) \<times> run_state" where
  "run_try e =
     (let s0 = \<lparr>outputs = [], failed = None, calls = []\<rparr> in
      case getInput (inputs e) ''jira_base_url'' True of Inl err \<Rightarrow> (Inl err, s0) | Inr jiraBaseUrl \<Rightarrow>
      case getInput (inputs e) ''jira_email'' True of Inl err \<Rightarrow> (Inl err, s0) | Inr jiraEmail \<Rightarrow>
      case getInput (inputs e) ''jira_api_token'' True of Inl err \<Rightarrow> (Inl err, s0) | Inr jiraApiToken \<Rightarrow>
      case getInput (inputs e) ''operation'' True of Inl err \<Rightarrow> (Inl err, s0) | Inr operation \<Rightarrow>
      (case dispatch e (normalize_base_url jiraBaseUrl) default_headers operation [] of
         (Inl err, log) \<Rightarrow> (Inl err, s0\<lparr>calls := log\<rparr>)
       | (Inr response, log) \<Rightarrow>
           let s1 = setOutput ''status'' (JStr ''success'') (s0\<lparr>calls := log\<rparr>);
               s2 = (if truthy (read_opt (issueKey response))
                     then setOutput ''issue_key'' (read_opt (issueKey response)) s1 else s1);
               s3 = (if truthy (read_opt (issueId response))
                     then setOutput ''issue_id'' (read_opt (issueId response)) s2 else s2);
               s4 = setOutput ''response'' (stringify_value e (data response)) s3
           in (Inr (), s4)))"

text \<open>
  \<^verbatim>\<open>run\<close>: the \<^verbatim>\<open>try\<close> block, and the \<^verbatim>\<open>catch\<close> handler when it threw. The handler
  sets \<^verbatim>\<open>status\<close> first, then fails the run with the message of an \<^verbatim>\<open>Error\<close>, or
  with a fixed text for any other thrown value.
\<close>

definition run :: "env \<Rightarrow> run_state" where
  "run e =
     (case run_try e of
        (Inr u, s) \<Rightarrow> s
      | (Inl error, s) \<Rightarrow>
          let s' = setOutput ''status'' (JStr ''error'') s in
          (case error of
             JsError message \<Rightarrow> setFailed message s'
           | JsThrown v \<Rightarrow> setFailed ''An unknown error occurred'' s'))"

section \<open>The mocks of the test suite\<close>

text \<open>
  The inputs, responses and client of \<^verbatim>\<open>__tests__/main.test.js\<close>, used as the
  concrete runs below.
\<close>

definition getInputMockFn :: "string \<Rightarrow> string \<Rightarrow> string" where
  "getInputMockFn name operation =
     (if name = ''jira_base_url'' then ''https://your-domain.atlassian.net''
      else if name = ''jira_email'' then ''test@example.com''
      else if name = ''jira_api_token'' then ''test-token''
      else if name = ''operation'' then operation
      else if name = ''project_key'' then ''PROJECT''
      else if name = ''issue_type'' then ''Bug''
      else if name = ''summary'' then ''Test issue''
      else if name = ''description'' then ''Test description''
      else if name = ''issue_key'' then ''PROJECT-123''
      else if name = ''transition_id'' then ''31''
      else if name = ''comment'' then ''Test comment''
      else if name = ''fields_json'' then ''''
      else '''')"

definition mockSuccessResponse :: http_response where
  "mockSuccessResponse =
     \<lparr>statusCode = 200,
      result = JObj [''id'' \<mapsto> JStr ''10000'', ''key'' \<mapsto> JStr ''PROJECT-123'',
                     ''self'' \<mapsto> JStr ''https://your-domain.atlassian.net/rest/api/3/issue/10000'']\<rparr>"

definition mockErrorResponse :: http_response where
  "mockErrorResponse =
     \<lparr>statusCode = 400,
      result = JObj [''errorMessages'' \<mapsto> JArr [JStr ''Error occurred''],
                     ''errors'' \<mapsto> JObj Map.empty]\<rparr>"

text \<open>\<^verbatim>\<open>mockResolvedValue\<close>: every call resolves to the same response.\<close>

definition mockResolvedValue :: "http_response \<Rightarrow> request list \<Rightarrow> request \<Rightarrow> http_reply" where
  "mockResolvedValue r log req = Resolved r"

text \<open>
  \<^verbatim>\<open>JSON.parse\<close> and \<^verbatim>\<open>JSON.stringify\<close> on the arguments the concrete runs give them;
  their value elsewhere plays no part.
\<close>

definition example_parse :: "string \<Rightarrow> string + js_value" where
  \<open>example_parse s =
     (if s = ''{"x":"y"}'' then Inr (JObj [''x'' \<mapsto> JStr ''y''])
      else if s = ''{"summary":"y"}'' then Inr (JObj [''summary'' \<mapsto> JStr ''y''])
      else Inl ''Unexpected token i in JSON at position 1'')\<close>

definition example_stringify :: "js_value \<Rightarrow> string option" where
  \<open>example_stringify v =
     (if v = result mockErrorResponse then Some ''{"errorMessages":["Error occurred"],"errors":{}}''
      else if v = JNull then Some ''null''
      else None)\<close>

definition test_env :: "string \<Rightarrow> (request list \<Rightarrow> request \<Rightarrow> http_reply) \<Rightarrow> env" where
  "test_env operation c =
     \<lparr>inputs = (\<lambda>name. getInputMockFn name operation),
      json_parse = example_parse,
      json_stringify = example_stringify,
      client = c\<rparr>"

text \<open>A test's override of one input (\<^verbatim>\<open>if (name === ...) return ...\<close>).\<close>

definition with_input :: "string \<Rightarrow> string \<Rightarrow> env \<Rightarrow> env" where
  "with_input name v e = e\<lparr>inputs := (inputs e)(name := v)\<rparr>"

text \<open>The inputs of the test \<^verbatim>\<open>Creates a version in Jira successfully\<close>.\<close>

definition create_version_env :: env where
  "create_version_env =
     with_input ''project_id'' ''10000''
       (with_input ''version_name'' ''v1.0.0''
         (with_input ''version_description'' ''First version''
           (with_input ''version_archived'' ''false''
             (with_input ''version_released'' ''true''
               (with_input ''version_start_date'' ''2025-01-01''
                 (with_input ''version_release_date'' ''2025-07-31''
                   (test_env ''create_version'' (mockResolvedValue mockSuccessResponse))))))))"


text \<open>\<^verbatim>\<open>mockRejectedValue\<close>: every call is rejected with the same value.\<close>

definition mockRejectedValue :: "js_exn \<Rightarrow> request list \<Rightarrow> request \<Rightarrow> http_reply" where
  "mockRejectedValue x log req = Rejected x"


section \<open>The pipelines once their inputs are read\<close>

text \<open>
  With its required inputs supplied (and \<^verbatim>\<open>fields_json\<close>, when given, parsed to
  \<open>extra\<close>), a pipeline is its HTTP calls and the interpretation of their replies.
\<close>

lemma createIssue_unfold:
  assumes "inputs e ''project_key'' \<noteq> []" and "inputs e ''issue_type'' \<noteq> []"
    and "inputs e ''summary'' \<noteq> []"
    and "inputs e ''fields_json'' \<noteq> [] \<Longrightarrow> json_parse e (inputs e ''fields_json'') = Inr extra"
  shows "createIssue e baseUrl hs log =
     (let base = [''project'' \<mapsto> JObj [''key'' \<mapsto> JStr (inputs e ''project_key'')],
                  ''issuetype'' \<mapsto> JObj [''name'' \<mapsto> JStr (inputs e ''issue_type'')],
                  ''summary'' \<mapsto> JStr (inputs e ''summary'')]
                 ++ (if inputs e ''description'' \<noteq> []
                     then [''description'' \<mapsto> JStr (inputs e ''description'')] else Map.empty);
          flds = base ++ (if inputs e ''fields_json'' \<noteq> [] then own_props extra else Map.empty);
          post = \<lparr>req_method = POST,
                   req_url = baseUrl @ ''/rest/api/3/issue'',
                   req_body = Some (JObj [''fields'' \<mapsto> JObj flds]),
                   req_headers = hs\<rparr>
      in case client e log post of
           Rejected err \<Rightarrow> (Inl err, log @ [post])
         | Resolved response \<Rightarrow>
             if statusCode response < 200 \<or> statusCode response \<ge> 300 then
               (Inl (JsError (''Failed to create issue: '' @ string_of_int (statusCode response)
                       @ '' '' @ template (json_stringify e (result response)))), log @ [post])
             else
               (case get_prop (result response) ''key'' of
                  Inl err \<Rightarrow> (Inl err, log @ [post])
                | Inr k \<Rightarrow>
                    (case get_prop (result response) ''id'' of
                       Inl err \<Rightarrow> (Inl err, log @ [post])
                     | Inr i \<Rightarrow>
                         (Inr \<lparr>issueKey = Some k, issueId = Some i, data = result response\<rparr>,
                          log @ [post]))))"
  using assms
  by (simp add: createIssue_def getInput_def postJson_def http_call_def Let_def spread_def
           cong: if_cong http_reply.case_cong sum.case_cong)

lemma updateIssue_unfold:
  assumes "inputs e ''issue_key'' \<noteq> []"
    and "inputs e ''fields_json'' \<noteq> [] \<Longrightarrow> json_parse e (inputs e ''fields_json'') = Inr extra"
  shows "updateIssue e baseUrl hs log =
     (let flds = (if inputs e ''description'' \<noteq> []
                  then [''description'' \<mapsto> JStr (inputs e ''description'')] else Map.empty)
                 ++ (if inputs e ''fields_json'' \<noteq> [] then own_props extra else Map.empty);
          put = \<lparr>req_method = PUT,
                  req_url = baseUrl @ ''/rest/api/3/issue/'' @ inputs e ''issue_key'',
                  req_body = Some (JObj [''fields'' \<mapsto> JObj flds]),
                  req_headers = hs\<rparr>;
          get = \<lparr>req_method = GET,
                  req_url = baseUrl @ ''/rest/api/3/issue/'' @ inputs e ''issue_key'',
                  req_body = None, req_headers = hs\<rparr>
      in case client e log put of
           Rejected err \<Rightarrow> (Inl err, log @ [put])
         | Resolved response \<Rightarrow>
             if statusCode response < 200 \<or> statusCode response \<ge> 300 then
               (Inl (JsError (''Failed to update issue: '' @ string_of_int (statusCode response)
                       @ '' '' @ template (json_stringify e (result response)))), log @ [put])
             else
               (case client e (log @ [put]) get of
                  Rejected err \<Rightarrow> (Inl err, log @ [put, get])
                | Resolved getResponse \<Rightarrow>
                    (case get_prop (result getResponse) ''id'' of
                       Inl err \<Rightarrow> (Inl err, log @ [put, get])
                     | Inr i \<Rightarrow>
                       (Inr \<lparr>issueKey = Some (JStr (inputs e ''issue_key'')), issueId = Some i,
                             data = result getResponse\<rparr>, log @ [put, get]))))"
  using assms
  by (simp add: updateIssue_def getInput_def putJson_def getJson_def http_call_def Let_def spread_def
           cong: if_cong http_reply.case_cong sum.case_cong)

lemma transitionIssue_unfold:
  assumes "inputs e ''issue_key'' \<noteq> []" and "inputs e ''transition_id'' \<noteq> []"
  shows "transitionIssue e baseUrl hs log =
     (let post = \<lparr>req_method = POST,
                   req_url = baseUrl @ ''/rest/api/3/issue/'' @ inputs e ''issue_key'' @ ''/transitions'',
                   req_body = Some (JObj [''transition'' \<mapsto> JObj [''id'' \<mapsto> JStr (inputs e ''transition_id'')]]),
                   req_headers = hs\<rparr>;
          get = \<lparr>req_method = GET,
                  req_url = baseUrl @ ''/rest/api/3/issue/'' @ inputs e ''issue_key'',
                  req_body = None, req_headers = hs\<rparr>
      in case client e log post of
           Rejected err \<Rightarrow> (Inl err, log @ [post])
         | Resolved response \<Rightarrow>
             if statusCode response < 200 \<or> statusCode response \<ge> 300 then
               (Inl (JsError (''Failed to transition issue: '' @ string_of_int (statusCode response)
                       @ '' '' @ template (json_stringify e (result response)))), log @ [post])
             else
               (case client e (log @ [post]) get of
                  Rejected err \<Rightarrow> (Inl err, log @ [post, get])
                | Resolved getResponse \<Rightarrow>
                    (case get_prop (result getResponse) ''id'' of
                       Inl err \<Rightarrow> (Inl err, log @ [post, get])
                     | Inr i \<Rightarrow>
                       (Inr \<lparr>issueKey = Some (JStr (inputs e ''issue_key'')), issueId = Some i,
                             data = result getResponse\<rparr>, log @ [post, get]))))"
  using assms
  by (simp add: transitionIssue_def getInput_def postJson_def getJson_def http_call_def Let_def
           cong: if_cong http_reply.case_cong sum.case_cong)


text \<open>A run whose four leading inputs are supplied is the dispatch and what follows it.\<close>

lemma run_unfold:
  assumes "inputs e ''jira_base_url'' \<noteq> []" and "inputs e ''jira_email'' \<noteq> []"
    and "inputs e ''jira_api_token'' \<noteq> []" and "inputs e ''operation'' \<noteq> []"
  shows "run e =
     (case dispatch e (normalize_base_url (inputs e ''jira_base_url'')) default_headers
             (inputs e ''operation'') [] of
        (Inl err, log) \<Rightarrow>
          \<lparr>outputs = [(''status'', JStr ''error'')],
           failed = Some (case err of JsError message \<Rightarrow> message
                          | JsThrown v \<Rightarrow> ''An unknown error occurred''),
           calls = log\<rparr>
      | (Inr response, log) \<Rightarrow>
          \<lparr>outputs = [(''status'', JStr ''success'')]
             @ (if truthy (read_opt (issueKey response))
                then [(''issue_key'', read_opt (issueKey response))] else [])
             @ (if truthy (read_opt (issueId response))
                then [(''issue_id'', read_opt (issueId response))] else [])
             @ [(''response'', stringify_value e (data response))],
           failed = None,
           calls = log\<rparr>)"
proof (cases "dispatch e (normalize_base_url (inputs e ''jira_base_url'')) default_headers
             (inputs e ''operation'') []")
  case (Pair r log)
  show ?thesis
  proof (cases r)
    case (Inl err)
    with Pair assms show ?thesis
      by (cases err) (simp_all add: run_def run_try_def getInput_def setOutput_def setFailed_def)
  next
    case (Inr response)
    with Pair assms show ?thesis
      by (simp add: run_def run_try_def getInput_def setOutput_def setFailed_def Let_def)
  qed
qed

section \<open>Read-back after a write\<close>

text \<open>
  C1. \<^verbatim>\<open>update_issue\<close> and \<^verbatim>\<open>transition_issue\<close>, with their inputs supplied. A write
  answered with a status in [200,300) is always followed by a GET of the issue, so that
  exactly two calls are made, the write and then the GET; when the GET resolves to a
  response whose \<^verbatim>\<open>id\<close> can be read, the pipeline returns the result made of the input
  \<^verbatim>\<open>issue_key\<close>, that \<^verbatim>\<open>id\<close> and the whole body of the GET's response (the body of the
  write's response appears nowhere in it). Conversely a returned result comes only from
  such a pair of calls. When the write is answered with a status outside [200,300),
  exactly one call is made and the pipeline fails.
\<close>

theorem write_then_read_back:
  assumes key: "inputs e ''issue_key'' \<noteq> []"
  shows "(let get = \<lparr>req_method = GET,
                      req_url = baseUrl @ ''/rest/api/3/issue/'' @ inputs e ''issue_key'',
                      req_body = None, req_headers = hs\<rparr>;
              put = \<lparr>req_method = PUT,
                      req_url = baseUrl @ ''/rest/api/3/issue/'' @ inputs e ''issue_key'',
                      req_body = Some (JObj [''fields'' \<mapsto> JObj
                        ((if inputs e ''description'' \<noteq> []
                          then [''description'' \<mapsto> JStr (inputs e ''description'')] else Map.empty)
                         ++ (if inputs e ''fields_json'' \<noteq> [] then own_props extra else Map.empty))]),
                      req_headers = hs\<rparr>;
              post = \<lparr>req_method = POST,
                       req_url = baseUrl @ ''/rest/api/3/issue/'' @ inputs e ''issue_key'' @ ''/transitions'',
                       req_body = Some (JObj [''transition'' \<mapsto>
                                          JObj [''id'' \<mapsto> JStr (inputs e ''transition_id'')]]),
                       req_headers = hs\<rparr>
          in ((inputs e ''fields_json'' \<noteq> [] \<longrightarrow>
                 json_parse e (inputs e ''fields_json'') = Inr extra) \<longrightarrow>
              (\<forall>r1. client e log put = Resolved r1
                        \<and> 200 \<le> statusCode r1 \<and> statusCode r1 < 300 \<longrightarrow>
                   snd (updateIssue e baseUrl hs log) = log @ [put, get])
              \<and> (\<forall>r1 r2 i. client e log put = Resolved r1
                        \<and> 200 \<le> statusCode r1 \<and> statusCode r1 < 300
                        \<and> client e (log @ [put]) get = Resolved r2
                        \<and> get_prop (result r2) ''id'' = Inr i \<longrightarrow>
                   updateIssue e baseUrl hs log
                     = (Inr \<lparr>issueKey = Some (JStr (inputs e ''issue_key'')), issueId = Some i,
                             data = result r2\<rparr>, log @ [put, get]))
              \<and> (\<forall>res. fst (updateIssue e baseUrl hs log) = Inr res \<longrightarrow>
                 snd (updateIssue e baseUrl hs log) = log @ [put, get]
                 \<and> (\<exists>r1 r2. client e log put = Resolved r1
                      \<and> 200 \<le> statusCode r1 \<and> statusCode r1 < 300
                      \<and> client e (log @ [put]) get = Resolved r2
                      \<and> issueKey res = Some (JStr (inputs e ''issue_key''))
                      \<and> Inr (read_opt (issueId res)) = get_prop (result r2) ''id''
                      \<and> data res = result r2))
              \<and> (\<forall>r1. client e log put = Resolved r1
                        \<and> (statusCode r1 < 200 \<or> 300 \<le> statusCode r1) \<longrightarrow>
                   snd (updateIssue e baseUrl hs log) = log @ [put]
                   \<and> isl (fst (updateIssue e baseUrl hs log))))
           \<and> (inputs e ''transition_id'' \<noteq> [] \<longrightarrow>
              (\<forall>r1. client e log post = Resolved r1
                        \<and> 200 \<le> statusCode r1 \<and> statusCode r1 < 300 \<longrightarrow>
                   snd (transitionIssue e baseUrl hs log) = log @ [post, get])
              \<and> (\<forall>r1 r2 i. client e log post = Resolved r1
                        \<and> 200 \<le> statusCode r1 \<and> statusCode r1 < 300
                        \<and> client e (log @ [post]) get = Resolved r2
                        \<and> get_prop (result r2) ''id'' = Inr i \<longrightarrow>
                   transitionIssue e baseUrl hs log
                     = (Inr \<lparr>issueKey = Some (JStr (inputs e ''issue_key'')), issueId = Some i,
                             data = result r2\<rparr>, log @ [post, get]))
              \<and> (\<forall>res. fst (transitionIssue e baseUrl hs log) = Inr res \<longrightarrow>
                 snd (transitionIssue e baseUrl hs log) = log @ [post, get]
                 \<and> (\<exists>r1 r2. client e log post = Resolved r1
                      \<and> 200 \<le> statusCode r1 \<and> statusCode r1 < 300
                      \<and> client e (log @ [post]) get = Resolved r2
                      \<and> issueKey res = Some (JStr (inputs e ''issue_key''))
                      \<and> Inr (read_opt (issueId res)) = get_prop (result r2) ''id''
                      \<and> data res = result r2))
              \<and> (\<forall>r1. client e log post = Resolved r1
                        \<and> (statusCode r1 < 200 \<or> 300 \<le> statusCode r1) \<longrightarrow>
                   snd (transitionIssue e baseUrl hs log) = log @ [post]
                   \<and> isl (fst (transitionIssue e baseUrl hs log)))))"
proof -
  let ?get = "\<lparr>req_method = GET,
                req_url = baseUrl @ ''/rest/api/3/issue/'' @ inputs e ''issue_key'',
                req_body = None, req_headers = hs\<rparr>"
  let ?put = "\<lparr>req_method = PUT,
                req_url = baseUrl @ ''/rest/api/3/issue/'' @ inputs e ''issue_key'',
                req_body = Some (JObj [''fields'' \<mapsto> JObj
                  ((if inputs e ''description'' \<noteq> []
                    then [''description'' \<mapsto> JStr (inputs e ''description'')] else Map.empty)
                   ++ (if inputs e ''fields_json'' \<noteq> [] then own_props extra else Map.empty))]),
                req_headers = hs\<rparr>"
  let ?post = "\<lparr>req_method = POST,
                 req_url = baseUrl @ ''/rest/api/3/issue/'' @ inputs e ''issue_key'' @ ''/transitions'',
                 req_body = Some (JObj [''transition'' \<mapsto>
                                    JObj [''id'' \<mapsto> JStr (inputs e ''transition_id'')]]),
                 req_headers = hs\<rparr>"
  let ?U = "updateIssue e baseUrl hs log"
  let ?T = "transitionIssue e baseUrl hs log"
  have U: "(\<forall>r1. client e log ?put = Resolved r1 \<and> 200 \<le> statusCode r1 \<and> statusCode r1 < 300 \<longrightarrow>
                snd ?U = log @ [?put, ?get])
           \<and> (\<forall>r1 r2 i. client e log ?put = Resolved r1
                     \<and> 200 \<le> statusCode r1 \<and> statusCode r1 < 300
                     \<and> client e (log @ [?put]) ?get = Resolved r2
                     \<and> get_prop (result r2) ''id'' = Inr i \<longrightarrow>
                ?U = (Inr \<lparr>issueKey = Some (JStr (inputs e ''issue_key'')), issueId = Some i,
                           data = result r2\<rparr>, log @ [?put, ?get]))
           \<and> (\<forall>res. fst ?U = Inr res \<longrightarrow>
                snd ?U = log @ [?put, ?get]
                \<and> (\<exists>r1 r2. client e log ?put = Resolved r1
                     \<and> 200 \<le> statusCode r1 \<and> statusCode r1 < 300
                     \<and> client e (log @ [?put]) ?get = Resolved r2
                     \<and> issueKey res = Some (JStr (inputs e ''issue_key''))
                     \<and> Inr (read_opt (issueId res)) = get_prop (result r2) ''id''
                     \<and> data res = result r2))
           \<and> (\<forall>r1. client e log ?put = Resolved r1 \<and> (statusCode r1 < 200 \<or> 300 \<le> statusCode r1) \<longrightarrow>
                snd ?U = log @ [?put] \<and> isl (fst ?U))"
    if parsed: "inputs e ''fields_json'' \<noteq> [] \<longrightarrow> json_parse e (inputs e ''fields_json'') = Inr extra"
  proof -
    from parsed
    have fj: "inputs e ''fields_json'' \<noteq> [] \<Longrightarrow> json_parse e (inputs e ''fields_json'') = Inr extra"
      by simp
    note u = updateIssue_unfold [OF key fj, of baseUrl hs log, unfolded Let_def]
    show ?thesis
    proof (cases "client e log ?put")
      case (Rejected err)
      then show ?thesis by (simp add: u)
    next
      case r1: (Resolved r1)
      show ?thesis
      proof (cases "statusCode r1 < 200" "300 \<le> statusCode r1" rule: case_split [case_product case_split])
        case True_True
        with r1 show ?thesis by (simp add: u)
      next
        case True_False
        with r1 show ?thesis by (simp add: u)
      next
        case False_True
        with r1 show ?thesis by (simp add: u)
      next
        case ok: False_False
        show ?thesis
        proof (cases "client e (log @ [?put]) ?get")
          case (Rejected err)
          with r1 ok show ?thesis by (simp add: u)
        next
          case r2: (Resolved r2)
          show ?thesis
          proof (cases "get_prop (result r2) ''id''")
            case (Inl err)
            with r1 ok r2 show ?thesis by (simp add: u)
          next
            case (Inr i)
            with r1 ok r2 show ?thesis by (simp add: u)
          qed
        qed
      qed
    qed
  qed
  have T: "(\<forall>r1. client e log ?post = Resolved r1 \<and> 200 \<le> statusCode r1 \<and> statusCode r1 < 300 \<longrightarrow>
                snd ?T = log @ [?post, ?get])
           \<and> (\<forall>r1 r2 i. client e log ?post = Resolved r1
                     \<and> 200 \<le> statusCode r1 \<and> statusCode r1 < 300
                     \<and> client e (log @ [?post]) ?get = Resolved r2
                     \<and> get_prop (result r2) ''id'' = Inr i \<longrightarrow>
                ?T = (Inr \<lparr>issueKey = Some (JStr (inputs e ''issue_key'')), issueId = Some i,
                           data = result r2\<rparr>, log @ [?post, ?get]))
           \<and> (\<forall>res. fst ?T = Inr res \<longrightarrow>
                snd ?T = log @ [?post, ?get]
                \<and> (\<exists>r1 r2. client e log ?post = Resolved r1
                     \<and> 200 \<le> statusCode r1 \<and> statusCode r1 < 300
                     \<and> client e (log @ [?post]) ?get = Resolved r2
                     \<and> issueKey res = Some (JStr (inputs e ''issue_key''))
                     \<and> Inr (read_opt (issueId res)) = get_prop (result r2) ''id''
                     \<and> data res = result r2))
           \<and> (\<forall>r1. client e log ?post = Resolved r1 \<and> (statusCode r1 < 200 \<or> 300 \<le> statusCode r1) \<longrightarrow>
                snd ?T = log @ [?post] \<and> isl (fst ?T))"
    if tid: "inputs e ''transition_id'' \<noteq> []"
  proof -
    note t = transitionIssue_unfold [OF key tid, of baseUrl hs log, unfolded Let_def]
    show ?thesis
    proof (cases "client e log ?post")
      case (Rejected err)
      then show ?thesis by (simp add: t)
    next
      case r1: (Resolved r1)
      show ?thesis
      proof (cases "statusCode r1 < 200" "300 \<le> statusCode r1" rule: case_split [case_product case_split])
        case True_True
        with r1 show ?thesis by (simp add: t)
      next
        case True_False
        with r1 show ?thesis by (simp add: t)
      next
        case False_True
        with r1 show ?thesis by (simp add: t)
      next
        case ok: False_False
        show ?thesis
        proof (cases "client e (log @ [?post]) ?get")
          case (Rejected err)
          with r1 ok show ?thesis by (simp add: t)
        next
          case r2: (Resolved r2)
          show ?thesis
          proof (cases "get_prop (result r2) ''id''")
            case (Inl err)
            with r1 ok r2 show ?thesis by (simp add: t)
          next
            case (Inr i)
            with r1 ok r2 show ?thesis by (simp add: t)
          qed
        qed
      qed
    qed
  qed
  show ?thesis
    unfolding Let_def
  proof (intro conjI impI)
    assume "inputs e ''fields_json'' \<noteq> [] \<longrightarrow> json_parse e (inputs e ''fields_json'') = Inr extra"
    note U' = U [OF this]
    show "\<forall>r1. client e log ?put = Resolved r1 \<and> 200 \<le> statusCode r1 \<and> statusCode r1 < 300 \<longrightarrow>
                snd ?U = log @ [?put, ?get]"
      using U' by blast
    show "\<forall>r1 r2 i. client e log ?put = Resolved r1
                     \<and> 200 \<le> statusCode r1 \<and> statusCode r1 < 300
                     \<and> client e (log @ [?put]) ?get = Resolved r2
                     \<and> get_prop (result r2) ''id'' = Inr i \<longrightarrow>
                ?U = (Inr \<lparr>issueKey = Some (JStr (inputs e ''issue_key'')), issueId = Some i,
                           data = result r2\<rparr>, log @ [?put, ?get])"
      using U' by blast
    show "\<forall>res. fst ?U = Inr res \<longrightarrow>
                snd ?U = log @ [?put, ?get]
                \<and> (\<exists>r1 r2. client e log ?put = Resolved r1
                     \<and> 200 \<le> statusCode r1 \<and> statusCode r1 < 300
                     \<and> client e (log @ [?put]) ?get = Resolved r2
                     \<and> issueKey res = Some (JStr (inputs e ''issue_key''))
                     \<and> Inr (read_opt (issueId res)) = get_prop (result r2) ''id''
                     \<and> data res = result r2)"
      using U' by blast
    show "\<forall>r1. client e log ?put = Resolved r1 \<and> (statusCode r1 < 200 \<or> 300 \<le> statusCode r1) \<longrightarrow>
                snd ?U = log @ [?put] \<and> isl (fst ?U)"
      using U' by blast
  next
    assume "inputs e ''transition_id'' \<noteq> []"
    note T' = T [OF this]
    show "\<forall>r1. client e log ?post = Resolved r1 \<and> 200 \<le> statusCode r1 \<and> statusCode r1 < 300 \<longrightarrow>
                snd ?T = log @ [?post, ?get]"
      using T' by blast
    show "\<forall>r1 r2 i. client e log ?post = Resolved r1
                     \<and> 200 \<le> statusCode r1 \<and> statusCode r1 < 300
                     \<and> client e (log @ [?post]) ?get = Resolved r2
                     \<and> get_prop (result r2) ''id'' = Inr i \<longrightarrow>
                ?T = (Inr \<lparr>issueKey = Some (JStr (inputs e ''issue_key'')), issueId = Some i,
                           data = result r2\<rparr>, log @ [?post, ?get])"
      using T' by blast
    show "\<forall>res. fst ?T = Inr res \<longrightarrow>
                snd ?T = log @ [?post, ?get]
                \<and> (\<exists>r1 r2. client e log ?post = Resolved r1
                     \<and> 200 \<le> statusCode r1 \<and> statusCode r1 < 300
                     \<and> client e (log @ [?post]) ?get = Resolved r2
                     \<and> issueKey res = Some (JStr (inputs e ''issue_key''))
                     \<and> Inr (read_opt (issueId res)) = get_prop (result r2) ''id''
                     \<and> data res = result r2)"
      using T' by blast
    show "\<forall>r1. client e log ?post = Resolved r1 \<and> (statusCode r1 < 200 \<or> 300 \<le> statusCode r1) \<longrightarrow>
                snd ?T = log @ [?post] \<and> isl (fst ?T)"
      using T' by blast
  qed
qed

theorem write_then_read_back_witness:
  \<open>inputs (with_input ''fields_json'' ''{"x":"y"}''
             (test_env ''update_issue'' (mockResolvedValue mockSuccessResponse))) ''issue_key'' \<noteq> []
   \<and> inputs (with_input ''fields_json'' ''{"x":"y"}''
             (test_env ''update_issue'' (mockResolvedValue mockSuccessResponse))) ''transition_id'' \<noteq> []
   \<and> json_parse (with_input ''fields_json'' ''{"x":"y"}''
             (test_env ''update_issue'' (mockResolvedValue mockSuccessResponse))) ''{"x":"y"}''
       = Inr (JObj [''x'' \<mapsto> JStr ''y''])
   \<and> updateIssue (with_input ''fields_json'' ''{"x":"y"}''
             (test_env ''update_issue'' (mockResolvedValue mockSuccessResponse)))
            ''https://your-domain.atlassian.net'' default_headers []
       = (Inr \<lparr>issueKey = Some (JStr ''PROJECT-123''), issueId = Some (JStr ''10000''),
               data = result mockSuccessResponse\<rparr>,
          [\<lparr>req_method = PUT,
            req_url = ''https://your-domain.atlassian.net/rest/api/3/issue/PROJECT-123'',
            req_body = Some (JObj [''fields'' \<mapsto> JObj
                         [''description'' \<mapsto> JStr ''Test description'', ''x'' \<mapsto> JStr ''y'']]),
            req_headers = default_headers\<rparr>,
           \<lparr>req_method = GET,
            req_url = ''https://your-domain.atlassian.net/rest/api/3/issue/PROJECT-123'',
            req_body = None, req_headers = default_headers\<rparr>])
   \<and> transitionIssue (with_input ''fields_json'' ''{"x":"y"}''
             (test_env ''update_issue'' (mockResolvedValue mockSuccessResponse)))
            ''https://your-domain.atlassian.net'' default_headers []
       = (Inr \<lparr>issueKey = Some (JStr ''PROJECT-123''), issueId = Some (JStr ''10000''),
               data = result mockSuccessResponse\<rparr>,
          [\<lparr>req_method = POST,
            req_url = ''https://your-domain.atlassian.net/rest/api/3/issue/PROJECT-123/transitions'',
            req_body = Some (JObj [''transition'' \<mapsto> JObj [''id'' \<mapsto> JStr ''31'']]),
            req_headers = default_headers\<rparr>,
           \<lparr>req_method = GET,
            req_url = ''https://your-domain.atlassian.net/rest/api/3/issue/PROJECT-123'',
            req_body = None, req_headers = default_headers\<rparr>])
   \<and> statusCode mockErrorResponse = 400
   \<and> isl (fst (updateIssue (test_env ''update_issue'' (mockResolvedValue mockErrorResponse))
            ''https://your-domain.atlassian.net'' default_headers []))
   \<and> map req_method (snd (updateIssue (test_env ''update_issue'' (mockResolvedValue mockErrorResponse))
            ''https://your-domain.atlassian.net'' default_headers [])) = [PUT]
   \<and> isl (fst (transitionIssue (test_env ''update_issue'' (mockResolvedValue mockErrorResponse))
            ''https://your-domain.atlassian.net'' default_headers []))
   \<and> map req_method (snd (transitionIssue (test_env ''update_issue'' (mockResolvedValue mockErrorResponse))
            ''https://your-domain.atlassian.net'' default_headers [])) = [POST]\<close>
proof -
  let ?e1 = \<open>with_input ''fields_json'' ''{"x":"y"}''
               (test_env ''update_issue'' (mockResolvedValue mockSuccessResponse))\<close>
  let ?e2 = "test_env ''update_issue'' (mockResolvedValue mockErrorResponse)"
  let ?b = "''https://your-domain.atlassian.net''"
  have in1: "inputs ?e1 ''issue_key'' = ''PROJECT-123''" "inputs ?e1 ''transition_id'' = ''31''"
    "inputs ?e1 ''description'' = ''Test description''"
    \<open>inputs ?e1 ''fields_json'' = ''{"x":"y"}''\<close>
    by (simp_all add: with_input_def test_env_def getInputMockFn_def)
  have in2: "inputs ?e2 ''issue_key'' = ''PROJECT-123''" "inputs ?e2 ''transition_id'' = ''31''"
    "inputs ?e2 ''description'' = ''Test description''" "inputs ?e2 ''fields_json'' = []"
    by (simp_all add: test_env_def getInputMockFn_def)
  have parse1: \<open>json_parse ?e1 ''{"x":"y"}'' = Inr (JObj [''x'' \<mapsto> JStr ''y''])\<close>
    by (simp add: with_input_def test_env_def example_parse_def)
  have k1: "inputs ?e1 ''issue_key'' \<noteq> []" and tid1: "inputs ?e1 ''transition_id'' \<noteq> []"
    and fj1: "inputs ?e1 ''fields_json'' \<noteq> [] \<longrightarrow>
              json_parse ?e1 (inputs ?e1 ''fields_json'') = Inr (JObj [''x'' \<mapsto> JStr ''y''])"
    by (simp_all add: in1 parse1)
  have k2: "inputs ?e2 ''issue_key'' \<noteq> []" and tid2: "inputs ?e2 ''transition_id'' \<noteq> []"
    and fj2: "inputs ?e2 ''fields_json'' \<noteq> [] \<longrightarrow>
              json_parse ?e2 (inputs ?e2 ''fields_json'') = Inr JNull"
    by (simp_all add: in2)
  have c1: "client ?e1 l r = Resolved mockSuccessResponse" for l r
    by (simp add: with_input_def test_env_def mockResolvedValue_def)
  have c2: "client ?e2 l r = Resolved mockErrorResponse" for l r
    by (simp add: test_env_def mockResolvedValue_def)
  have ok: "200 \<le> statusCode mockSuccessResponse" "statusCode mockSuccessResponse < 300"
    "get_prop (result mockSuccessResponse) ''id'' = Inr (JStr ''10000'')"
    by (simp_all add: mockSuccessResponse_def)
  have bad: "statusCode mockErrorResponse = 400"
    by (simp add: mockErrorResponse_def)
  note th1 = write_then_read_back
    [OF k1, where extra = "JObj [''x'' \<mapsto> JStr ''y'']" and baseUrl = ?b
       and hs = default_headers and log = "[]", unfolded Let_def]
  note th2 = write_then_read_back
    [OF k2, where extra = JNull and baseUrl = ?b
       and hs = default_headers and log = "[]", unfolded Let_def]
  note U1 = th1 [THEN conjunct1, THEN mp, OF fj1, THEN conjunct2, THEN conjunct1, rule_format,
                 of mockSuccessResponse mockSuccessResponse "JStr ''10000''"]
  note T1 = th1 [THEN conjunct2, THEN mp, OF tid1, THEN conjunct2, THEN conjunct1, rule_format,
                 of mockSuccessResponse mockSuccessResponse "JStr ''10000''"]
  note U2 = th2 [THEN conjunct1, THEN mp, OF fj2, THEN conjunct2, THEN conjunct2, THEN conjunct2,
                 rule_format, of mockErrorResponse]
  note T2 = th2 [THEN conjunct2, THEN mp, OF tid2, THEN conjunct2, THEN conjunct2, THEN conjunct2,
                 rule_format, of mockErrorResponse]
  have u1: "updateIssue ?e1 ?b default_headers []
       = (Inr \<lparr>issueKey = Some (JStr ''PROJECT-123''), issueId = Some (JStr ''10000''),
               data = result mockSuccessResponse\<rparr>,
          [\<lparr>req_method = PUT,
            req_url = ''https://your-domain.atlassian.net/rest/api/3/issue/PROJECT-123'',
            req_body = Some (JObj [''fields'' \<mapsto> JObj
                         [''description'' \<mapsto> JStr ''Test description'', ''x'' \<mapsto> JStr ''y'']]),
            req_headers = default_headers\<rparr>,
           \<lparr>req_method = GET,
            req_url = ''https://your-domain.atlassian.net/rest/api/3/issue/PROJECT-123'',
            req_body = None, req_headers = default_headers\<rparr>])"
    using U1 by (simp add: c1 ok in1)
  have t1: "transitionIssue ?e1 ?b default_headers []
       = (Inr \<lparr>issueKey = Some (JStr ''PROJECT-123''), issueId = Some (JStr ''10000''),
               data = result mockSuccessResponse\<rparr>,
          [\<lparr>req_method = POST,
            req_url = ''https://your-domain.atlassian.net/rest/api/3/issue/PROJECT-123/transitions'',
            req_body = Some (JObj [''transition'' \<mapsto> JObj [''id'' \<mapsto> JStr ''31'']]),
            req_headers = default_headers\<rparr>,
           \<lparr>req_method = GET,
            req_url = ''https://your-domain.atlassian.net/rest/api/3/issue/PROJECT-123'',
            req_body = None, req_headers = default_headers\<rparr>])"
    using T1 by (simp add: c1 ok in1)
  have u2: "isl (fst (updateIssue ?e2 ?b default_headers []))"
    "map req_method (snd (updateIssue ?e2 ?b default_headers [])) = [PUT]"
    using U2 by (simp_all add: c2 bad)
  have t2: "isl (fst (transitionIssue ?e2 ?b default_headers []))"
    "map req_method (snd (transitionIssue ?e2 ?b default_headers [])) = [POST]"
    using T2 by (simp_all add: c2 bad)
  show ?thesis
    by (simp add: in1 parse1 u1 t1 u2 t2 bad)
qed

section \<open>The body of create_issue\<close>

text \<open>
  C2. For every \<^verbatim>\<open>create_issue\<close> invocation that reaches its call (the three required
  inputs supplied, and \<^verbatim>\<open>fields_json\<close>, when given, parsed to \<open>extra\<close>), the request is a
  POST whose body is \<^verbatim>\<open>{fields: flds}\<close>, where \<open>flds\<close> is the base object
  \<^verbatim>\<open>{project: {key}, issuetype: {name}, summary}\<close>, with \<^verbatim>\<open>description\<close> added when that
  input is present, and the properties of the parsed \<^verbatim>\<open>fields_json\<close> on top: a key of the
  parsed value has the parsed value's entry, every other key the base entry.
\<close>

theorem createIssue_body:
  assumes pk: "inputs e ''project_key'' \<noteq> []" and it: "inputs e ''issue_type'' \<noteq> []"
    and su: "inputs e ''summary'' \<noteq> []"
    and fj: "inputs e ''fields_json'' \<noteq> [] \<Longrightarrow> json_parse e (inputs e ''fields_json'') = Inr extra"
  shows "(let base = [''project'' \<mapsto> JObj [''key'' \<mapsto> JStr (inputs e ''project_key'')],
                      ''issuetype'' \<mapsto> JObj [''name'' \<mapsto> JStr (inputs e ''issue_type'')],
                      ''summary'' \<mapsto> JStr (inputs e ''summary'')];
              with_description =
                (if inputs e ''description'' \<noteq> []
                 then base(''description'' \<mapsto> JStr (inputs e ''description'')) else base);
              additional =
                (if inputs e ''fields_json'' \<noteq> [] then own_props extra else Map.empty)
          in \<exists>flds.
               snd (createIssue e baseUrl hs log)
                 = log @ [\<lparr>req_method = POST, req_url = baseUrl @ ''/rest/api/3/issue'',
                            req_body = Some (JObj [''fields'' \<mapsto> JObj flds]),
                            req_headers = hs\<rparr>]
             \<and> (\<forall>k. flds k = (case additional k of Some v \<Rightarrow> Some v
                                | None \<Rightarrow> with_description k)))"
proof -
  let ?base = "[''project'' \<mapsto> JObj [''key'' \<mapsto> JStr (inputs e ''project_key'')],
                ''issuetype'' \<mapsto> JObj [''name'' \<mapsto> JStr (inputs e ''issue_type'')],
                ''summary'' \<mapsto> JStr (inputs e ''summary'')]
               ++ (if inputs e ''description'' \<noteq> []
                   then [''description'' \<mapsto> JStr (inputs e ''description'')] else Map.empty)"
  let ?flds = "?base ++ (if inputs e ''fields_json'' \<noteq> [] then own_props extra else Map.empty)"
  let ?post = "\<lparr>req_method = POST, req_url = baseUrl @ ''/rest/api/3/issue'',
                 req_body = Some (JObj [''fields'' \<mapsto> JObj ?flds]), req_headers = hs\<rparr>"
  note c = createIssue_unfold [OF pk it su fj, of baseUrl hs log, unfolded Let_def]
  have calls: "snd (createIssue e baseUrl hs log) = log @ [?post]"
  proof (cases "client e log ?post")
    case (Rejected err)
    then show ?thesis by (simp add: c)
  next
    case (Resolved response)
    then show ?thesis
      by (cases "get_prop (result response) ''key''"; cases "get_prop (result response) ''id''")
         (simp_all add: c)
  qed
  have lookup: "?flds k = (case (if inputs e ''fields_json'' \<noteq> [] then own_props extra else Map.empty) k of
                   Some v \<Rightarrow> Some v
                 | None \<Rightarrow> (if inputs e ''description'' \<noteq> []
                             then [''project'' \<mapsto> JObj [''key'' \<mapsto> JStr (inputs e ''project_key'')],
                                   ''issuetype'' \<mapsto> JObj [''name'' \<mapsto> JStr (inputs e ''issue_type'')],
                                   ''summary'' \<mapsto> JStr (inputs e ''summary''),
                                   ''description'' \<mapsto> JStr (inputs e ''description'')]
                             else [''project'' \<mapsto> JObj [''key'' \<mapsto> JStr (inputs e ''project_key'')],
                                   ''issuetype'' \<mapsto> JObj [''name'' \<mapsto> JStr (inputs e ''issue_type'')],
                                   ''summary'' \<mapsto> JStr (inputs e ''summary'')]) k)" for k
    by (simp add: map_add_def split: option.splits)
  show ?thesis
    unfolding Let_def
    by (rule exI [of _ ?flds]) (use calls lookup in simp)
qed

theorem createIssue_body_witness:
  \<open>inputs (with_input ''fields_json'' ''{"summary":"y"}''
            (test_env ''create_issue'' (mockResolvedValue mockSuccessResponse))) ''project_key'' \<noteq> []
   \<and> json_parse (with_input ''fields_json'' ''{"summary":"y"}''
            (test_env ''create_issue'' (mockResolvedValue mockSuccessResponse))) ''{"summary":"y"}''
       = Inr (JObj [''summary'' \<mapsto> JStr ''y''])
   \<and> (\<exists>flds. map req_body (snd (createIssue (with_input ''fields_json'' ''{"summary":"y"}''
            (test_env ''create_issue'' (mockResolvedValue mockSuccessResponse)))
            ''https://your-domain.atlassian.net'' default_headers []))
          = [Some (JObj [''fields'' \<mapsto> JObj flds])]
        \<and> flds ''summary'' = Some (JStr ''y'')
        \<and> flds ''description'' = Some (JStr ''Test description'')
        \<and> flds ''project'' = Some (JObj [''key'' \<mapsto> JStr ''PROJECT''])
        \<and> flds ''issuetype'' = Some (JObj [''name'' \<mapsto> JStr ''Bug''])
        \<and> flds ''other'' = None)\<close>
  using createIssue_body
          [of \<open>with_input ''fields_json'' ''{"summary":"y"}''
                 (test_env ''create_issue'' (mockResolvedValue mockSuccessResponse))\<close>
              "JObj [''summary'' \<mapsto> JStr ''y'']"
              "''https://your-domain.atlassian.net''" default_headers "[]"]
  by (auto simp add: with_input_def test_env_def getInputMockFn_def example_parse_def Let_def)

section \<open>The booleans of create_version\<close>

lemma createVersion_unfold:
  assumes "inputs e ''project_id'' \<noteq> []" and "inputs e ''version_name'' \<noteq> []"
  shows "createVersion e baseUrl hs log =
     (let body0 = [''name'' \<mapsto> JStr (inputs e ''version_name''),
                   ''projectId'' \<mapsto> JStr (inputs e ''project_id'')];
          body1 = (if inputs e ''version_description'' \<noteq> []
                   then body0(''description'' \<mapsto> JStr (inputs e ''version_description'')) else body0);
          body3 = body1(''archived'' \<mapsto> JBool (inputs e ''version_archived'' = ''true''),
                        ''released'' \<mapsto> JBool (inputs e ''version_released'' = ''true''));
          body4 = (if inputs e ''version_start_date'' \<noteq> []
                   then body3(''startDate'' \<mapsto> JStr (inputs e ''version_start_date'')) else body3);
          body5 = (if inputs e ''version_release_date'' \<noteq> []
                   then body4(''releaseDate'' \<mapsto> JStr (inputs e ''version_release_date'')) else body4);
          post = \<lparr>req_method = POST, req_url = baseUrl @ ''/rest/api/3/version'',
                   req_body = Some (JObj body5), req_headers = hs\<rparr>
      in case client e log post of
           Rejected err \<Rightarrow> (Inl err, log @ [post])
         | Resolved response \<Rightarrow>
             if statusCode response < 200 \<or> statusCode response \<ge> 300 then
               (Inl (JsError (''Failed to create version: '' @ string_of_int (statusCode response)
                       @ '' '' @ template (json_stringify e (result response)))), log @ [post])
             else (Inr \<lparr>issueKey = None, issueId = None, data = result response\<rparr>, log @ [post]))"
  using assms
  by (simp add: createVersion_def getInput_def postJson_def http_call_def Let_def
           cong: if_cong http_reply.case_cong split del: if_split)

lemma createVersion_absent_boolean:
  assumes "name = ''version_archived'' \<or> name = ''version_released''"
  shows "createVersion (with_input name '''' e) baseUrl hs log
          = createVersion (with_input name ''false'' e) baseUrl hs log"
proof (cases "inputs e ''project_id'' \<noteq> [] \<and> inputs e ''version_name'' \<noteq> []")
  case True
  have p1: "inputs (with_input name '''' e) ''project_id'' \<noteq> []"
           "inputs (with_input name '''' e) ''version_name'' \<noteq> []"
    using True assms by (auto simp add: with_input_def)
  have p2: "inputs (with_input name ''false'' e) ''project_id'' \<noteq> []"
           "inputs (with_input name ''false'' e) ''version_name'' \<noteq> []"
    using True assms by (auto simp add: with_input_def)
  from assms show ?thesis
  proof
    assume n: "name = ''version_archived''"
    show ?thesis
      unfolding createVersion_unfold [OF p1] createVersion_unfold [OF p2]
      by (simp add: n with_input_def Let_def cong: if_cong http_reply.case_cong split del: if_split)
  next
    assume n: "name = ''version_released''"
    show ?thesis
      unfolding createVersion_unfold [OF p1] createVersion_unfold [OF p2]
      by (simp add: n with_input_def Let_def cong: if_cong http_reply.case_cong split del: if_split)
  qed
next
  case False
  have "inputs (with_input name v e) ''project_id'' = inputs e ''project_id''"
       "inputs (with_input name v e) ''version_name'' = inputs e ''version_name''" for v
    using assms by (auto simp add: with_input_def)
  with False show ?thesis
    by (auto simp add: createVersion_def getInput_def)
qed

text \<open>
  C3. For every \<^verbatim>\<open>create_version\<close> invocation (project id and version name supplied)
  the request body has both fields \<^verbatim>\<open>archived\<close> and \<^verbatim>\<open>released\<close>, each the boolean
  \<^verbatim>\<open>true\<close> when its input is the string \<^verbatim>\<open>"true"\<close> and \<^verbatim>\<open>false\<close> for any other
  string; and an absent input (the empty string) gives the same pipeline outcome, calls
  included, as an explicit \<^verbatim>\<open>"false"\<close>.
\<close>

theorem createVersion_booleans:
  assumes pid: "inputs e ''project_id'' \<noteq> []" and vn: "inputs e ''version_name'' \<noteq> []"
  shows "(\<exists>body. snd (createVersion e baseUrl hs log)
                   = log @ [\<lparr>req_method = POST, req_url = baseUrl @ ''/rest/api/3/version'',
                              req_body = Some (JObj body), req_headers = hs\<rparr>]
              \<and> body ''archived'' = Some (JBool (inputs e ''version_archived'' = ''true''))
              \<and> body ''released'' = Some (JBool (inputs e ''version_released'' = ''true'')))
       \<and> createVersion (with_input ''version_archived'' '''' e) baseUrl hs log
          = createVersion (with_input ''version_archived'' ''false'' e) baseUrl hs log
       \<and> createVersion (with_input ''version_released'' '''' e) baseUrl hs log
          = createVersion (with_input ''version_released'' ''false'' e) baseUrl hs log"
proof -
  let ?body1 = "(if inputs e ''version_description'' \<noteq> []
                 then [''name'' \<mapsto> JStr (inputs e ''version_name''),
                       ''projectId'' \<mapsto> JStr (inputs e ''project_id''),
                       ''description'' \<mapsto> JStr (inputs e ''version_description'')]
                 else [''name'' \<mapsto> JStr (inputs e ''version_name''),
                       ''projectId'' \<mapsto> JStr (inputs e ''project_id'')])"
  let ?body3 = "?body1(''archived'' \<mapsto> JBool (inputs e ''version_archived'' = ''true''),
                       ''released'' \<mapsto> JBool (inputs e ''version_released'' = ''true''))"
  let ?body4 = "(if inputs e ''version_start_date'' \<noteq> []
                 then ?body3(''startDate'' \<mapsto> JStr (inputs e ''version_start_date'')) else ?body3)"
  let ?body5 = "(if inputs e ''version_release_date'' \<noteq> []
                 then ?body4(''releaseDate'' \<mapsto> JStr (inputs e ''version_release_date'')) else ?body4)"
  let ?post = "\<lparr>req_method = POST, req_url = baseUrl @ ''/rest/api/3/version'',
                 req_body = Some (JObj ?body5), req_headers = hs\<rparr>"
  note v = createVersion_unfold [OF pid vn, of baseUrl hs log, unfolded Let_def]
  have calls: "snd (createVersion e baseUrl hs log) = log @ [?post]"
  proof (cases "client e log ?post")
    case (Rejected err)
    then show ?thesis by (simp add: v)
  next
    case (Resolved response)
    then show ?thesis by (simp add: v)
  qed
  have a: "?body5 ''archived'' = Some (JBool (inputs e ''version_archived'' = ''true''))"
    by simp
  have r: "?body5 ''released'' = Some (JBool (inputs e ''version_released'' = ''true''))"
    by simp
  have "\<exists>body. snd (createVersion e baseUrl hs log)
                   = log @ [\<lparr>req_method = POST, req_url = baseUrl @ ''/rest/api/3/version'',
                              req_body = Some (JObj body), req_headers = hs\<rparr>]
              \<and> body ''archived'' = Some (JBool (inputs e ''version_archived'' = ''true''))
              \<and> body ''released'' = Some (JBool (inputs e ''version_released'' = ''true''))"
    using calls a r by (intro exI [of _ ?body5] conjI)
  then show ?thesis
    by (simp add: createVersion_absent_boolean)
qed

theorem createVersion_booleans_witness:
  "inputs create_version_env ''project_id'' = ''10000''
   \<and> inputs create_version_env ''version_name'' = ''v1.0.0''
   \<and> inputs create_version_env ''version_archived'' = ''false''
   \<and> inputs create_version_env ''version_released'' = ''true''
   \<and> (\<exists>body. snd (createVersion create_version_env ''https://your-domain.atlassian.net''
                      default_headers [])
                = [\<lparr>req_method = POST,
                    req_url = ''https://your-domain.atlassian.net/rest/api/3/version'',
                    req_body = Some (JObj body), req_headers = default_headers\<rparr>]
            \<and> body ''archived'' = Some (JBool False)
            \<and> body ''released'' = Some (JBool True))"
  using createVersion_booleans
          [of create_version_env "''https://your-domain.atlassian.net''" default_headers "[]"]
  by (simp add: create_version_env_def with_input_def test_env_def getInputMockFn_def)

section \<open>An unrecognized operation\<close>

text \<open>
  C4. For every operation name other than the seven recognized values (the name and
  the three connection inputs being supplied), the switch throws
  \<^verbatim>\<open>Unsupported operation: <value>\<close> without running a pipeline, and the run ends
  failed with that message, status \<^verbatim>\<open>error\<close>, and no HTTP call.
\<close>

theorem unsupported_operation:
  assumes url: "inputs e ''jira_base_url'' \<noteq> []" and email: "inputs e ''jira_email'' \<noteq> []"
    and token: "inputs e ''jira_api_token'' \<noteq> []" and op: "inputs e ''operation'' \<noteq> []"
    and other: "inputs e ''operation'' \<notin> {''create_issue'', ''update_issue'', ''transition_issue'',
                  ''add_comment'', ''get_issue'', ''get_project'', ''create_version''}"
  shows "dispatch e baseUrl hs (inputs e ''operation'') log
           = (Inl (JsError (''Unsupported operation: '' @ inputs e ''operation'')), log)
       \<and> run e = \<lparr>outputs = [(''status'', JStr ''error'')],
                    failed = Some (''Unsupported operation: '' @ inputs e ''operation''),
                    calls = []\<rparr>"
proof -
  have d: "dispatch e b hs (inputs e ''operation'') log
           = (Inl (JsError (''Unsupported operation: '' @ inputs e ''operation'')), log)" for b hs log
    using other by (simp add: dispatch_def)
  show ?thesis
    by (simp add: d run_unfold [OF url email token op])
qed

theorem unsupported_operation_witness:
  "inputs (test_env ''noop'' (mockResolvedValue mockSuccessResponse)) ''jira_base_url'' \<noteq> []
   \<and> inputs (test_env ''noop'' (mockResolvedValue mockSuccessResponse)) ''jira_email'' \<noteq> []
   \<and> inputs (test_env ''noop'' (mockResolvedValue mockSuccessResponse)) ''jira_api_token'' \<noteq> []
   \<and> inputs (test_env ''noop'' (mockResolvedValue mockSuccessResponse)) ''operation'' = ''noop''
   \<and> run (test_env ''noop'' (mockResolvedValue mockSuccessResponse))
       = \<lparr>outputs = [(''status'', JStr ''error'')],
          failed = Some ''Unsupported operation: noop'',
          calls = []\<rparr>"
  using unsupported_operation
          [of "test_env ''noop'' (mockResolvedValue mockSuccessResponse)"
              "''https://your-domain.atlassian.net''" default_headers "[]"]
  by (simp add: test_env_def getInputMockFn_def)

section \<open>Malformed fields_json\<close>

text \<open>
  C5. For every \<^verbatim>\<open>create_issue\<close> or \<^verbatim>\<open>update_issue\<close> invocation whose
  \<^verbatim>\<open>fields_json\<close> input is present and not parseable as JSON, the pipeline fails and
  makes no network call; with its required inputs supplied, the error is
  \<^verbatim>\<open>Invalid fields_json: <parser message>\<close>.
\<close>

theorem invalid_fields_json:
  assumes fj: "inputs e ''fields_json'' \<noteq> []"
    and bad: "json_parse e (inputs e ''fields_json'') = Inl message"
  shows "snd (createIssue e baseUrl hs log) = log
       \<and> snd (updateIssue e baseUrl hs log) = log
       \<and> isl (fst (createIssue e baseUrl hs log))
       \<and> isl (fst (updateIssue e baseUrl hs log))
       \<and> (inputs e ''project_key'' \<noteq> [] \<and> inputs e ''issue_type'' \<noteq> [] \<and> inputs e ''summary'' \<noteq> [] \<longrightarrow>
            fst (createIssue e baseUrl hs log) = Inl (JsError (''Invalid fields_json: '' @ message)))
       \<and> (inputs e ''issue_key'' \<noteq> [] \<longrightarrow>
            fst (updateIssue e baseUrl hs log) = Inl (JsError (''Invalid fields_json: '' @ message)))"
  using assms
  by (simp add: createIssue_def updateIssue_def getInput_def)

theorem invalid_fields_json_witness:
  "inputs (with_input ''fields_json'' ''{invalid:json}''
             (test_env ''create_issue'' (mockResolvedValue mockSuccessResponse))) ''fields_json'' \<noteq> []
   \<and> json_parse (with_input ''fields_json'' ''{invalid:json}''
             (test_env ''create_issue'' (mockResolvedValue mockSuccessResponse))) ''{invalid:json}''
       = Inl ''Unexpected token i in JSON at position 1''
   \<and> createIssue (with_input ''fields_json'' ''{invalid:json}''
             (test_env ''create_issue'' (mockResolvedValue mockSuccessResponse)))
          ''https://your-domain.atlassian.net'' default_headers []
       = (Inl (JsError ''Invalid fields_json: Unexpected token i in JSON at position 1''), [])
   \<and> updateIssue (with_input ''fields_json'' ''{invalid:json}''
             (test_env ''create_issue'' (mockResolvedValue mockSuccessResponse)))
          ''https://your-domain.atlassian.net'' default_headers []
       = (Inl (JsError ''Invalid fields_json: Unexpected token i in JSON at position 1''), [])"
  using invalid_fields_json
          [of "with_input ''fields_json'' ''{invalid:json}''
                 (test_env ''create_issue'' (mockResolvedValue mockSuccessResponse))"
              "''Unexpected token i in JSON at position 1''"
              "''https://your-domain.atlassian.net''" default_headers "[]"]
  by (simp add: with_input_def test_env_def getInputMockFn_def example_parse_def prod_eq_iff)

section \<open>A rejected first call\<close>








text \<open>A run that lacks one of its four leading inputs makes no call.\<close>

lemma run_without_input:
  assumes "inputs e ''jira_base_url'' = [] \<or> inputs e ''jira_email'' = []
         \<or> inputs e ''jira_api_token'' = [] \<or> inputs e ''operation'' = []"
  shows "calls (run e) = []"
  using assms
  by (auto simp add: run_def run_try_def getInput_def setOutput_def setFailed_def)



section \<open>The catch handler\<close>

text \<open>When the \<^verbatim>\<open>try\<close> block throws, it has set no output yet.\<close>

lemma run_try_throws:
  assumes "fst (run_try e) = Inl err"
  shows "outputs (snd (run_try e)) = [] \<and> failed (snd (run_try e)) = None"
proof (cases "dispatch e (normalize_base_url (inputs e ''jira_base_url'')) default_headers
                (inputs e ''operation'') []")
  case (Pair r log)
  with assms show ?thesis
    by (cases r) (auto simp add: run_try_def getInput_def Let_def setOutput_def split: if_splits)
qed

text \<open>
  C7, as the claim states it, fails on one of its paths: an exception that is not an
  instance of \<^verbatim>\<open>Error\<close> (here the client rejects with a plain object that has a
  \<^verbatim>\<open>message\<close>) fails the run with the fixed text \<^verbatim>\<open>An unknown error occurred\<close>, not
  with the message of what was thrown.
\<close>

theorem non_error_exception_counterexample:
  "fst (run_try (test_env ''get_issue''
          (mockRejectedValue (JsThrown (JObj [''message'' \<mapsto> JStr ''socket hang up''])))))
     = Inl (JsThrown (JObj [''message'' \<mapsto> JStr ''socket hang up'']))
   \<and> failed (run (test_env ''get_issue''
          (mockRejectedValue (JsThrown (JObj [''message'' \<mapsto> JStr ''socket hang up''])))))
     = Some ''An unknown error occurred''
   \<and> failed (run (test_env ''get_issue''
          (mockRejectedValue (JsThrown (JObj [''message'' \<mapsto> JStr ''socket hang up''])))))
     \<noteq> Some ''socket hang up''"
  by (simp add: run_def run_try_def dispatch_def getIssue_def getInput_def test_env_def
        getInputMockFn_def mockRejectedValue_def getJson_def http_call_def Let_def
        setOutput_def setFailed_def normalize_base_url_def)

text \<open>
  C7, amended. On every error path (a missing input, an unrecognized operation, a
  malformed \<^verbatim>\<open>fields_json\<close>, a remote rejection, or any other exception) the catch
  handler sets the \<^verbatim>\<open>status\<close> output to \<^verbatim>\<open>error\<close> and marks the run failed, with the
  error's message when what was thrown is an instance of \<^verbatim>\<open>Error\<close> and with
  \<^verbatim>\<open>An unknown error occurred\<close> otherwise; \<^verbatim>\<open>status\<close> is the only output set: none of
  \<^verbatim>\<open>issue_key\<close>, \<^verbatim>\<open>issue_id\<close>, \<^verbatim>\<open>response\<close> is.
\<close>

theorem error_path_outputs:
  assumes "fst (run_try e) = Inl err"
  shows "outputs (run e) = [(''status'', JStr ''error'')]
       \<and> failed (run e) = Some (case err of JsError message \<Rightarrow> message
                                 | JsThrown v \<Rightarrow> ''An unknown error occurred'')
       \<and> ''issue_key'' \<notin> fst ` set (outputs (run e))
       \<and> ''issue_id'' \<notin> fst ` set (outputs (run e))
       \<and> ''response'' \<notin> fst ` set (outputs (run e))"
proof -
  from run_try_throws [OF assms] assms show ?thesis
    by (cases "run_try e"; cases err) (simp_all add: run_def setOutput_def setFailed_def)
qed

theorem error_path_outputs_witness:
  "fst (run_try (with_input ''jira_email'' '''' (test_env ''get_issue'' (mockResolvedValue mockSuccessResponse))))
     = Inl (JsError ''Input required and not supplied: jira_email'')
   \<and> run (with_input ''jira_email'' '''' (test_env ''get_issue'' (mockResolvedValue mockSuccessResponse)))
     = \<lparr>outputs = [(''status'', JStr ''error'')],
        failed = Some ''Input required and not supplied: jira_email'', calls = []\<rparr>
   \<and> fst (run_try (with_input ''fields_json'' ''{invalid:json}''
                     (test_env ''create_issue'' (mockResolvedValue mockSuccessResponse))))
     = Inl (JsError ''Invalid fields_json: Unexpected token i in JSON at position 1'')
   \<and> outputs (run (with_input ''fields_json'' ''{invalid:json}''
                     (test_env ''create_issue'' (mockResolvedValue mockSuccessResponse))))
     = [(''status'', JStr ''error'')]
   \<and> failed (run (with_input ''fields_json'' ''{invalid:json}''
                     (test_env ''create_issue'' (mockResolvedValue mockSuccessResponse))))
     = Some ''Invalid fields_json: Unexpected token i in JSON at position 1''
   \<and> outputs (run (test_env ''get_issue''
          (mockRejectedValue (JsThrown (JObj [''message'' \<mapsto> JStr ''socket hang up''])))))
     = [(''status'', JStr ''error'')]"
proof -
  let ?e1 = "with_input ''jira_email'' '''' (test_env ''get_issue'' (mockResolvedValue mockSuccessResponse))"
  let ?e2 = "with_input ''fields_json'' ''{invalid:json}''
               (test_env ''create_issue'' (mockResolvedValue mockSuccessResponse))"
  let ?e3 = "test_env ''get_issue''
               (mockRejectedValue (JsThrown (JObj [''message'' \<mapsto> JStr ''socket hang up''])))"
  have t1: "fst (run_try ?e1) = Inl (JsError ''Input required and not supplied: jira_email'')"
    by (simp add: run_try_def getInput_def with_input_def test_env_def getInputMockFn_def)
  have c1: "calls (run ?e1) = []"
    by (simp add: run_without_input with_input_def)
  have t2: "fst (run_try ?e2)
            = Inl (JsError ''Invalid fields_json: Unexpected token i in JSON at position 1'')"
    by (simp add: run_try_def dispatch_def createIssue_def getInput_def with_input_def test_env_def
          getInputMockFn_def example_parse_def normalize_base_url_def Let_def)
  have t3: "fst (run_try ?e3) = Inl (JsThrown (JObj [''message'' \<mapsto> JStr ''socket hang up'']))"
    by (simp add: run_try_def dispatch_def getIssue_def getInput_def test_env_def
          getInputMockFn_def mockRejectedValue_def getJson_def http_call_def Let_def
          normalize_base_url_def)
  from error_path_outputs [OF t1] error_path_outputs [OF t2] error_path_outputs [OF t3] t1 t2 c1
  show ?thesis
    by (simp add: run_state.equality)
qed

section \<open>The outputs of a successful run\<close>











section \<open>The comment document\<close>



section \<open>The read-back's status code\<close>




end
